theory Spec2Isabelle
  imports Complex_Main
begin

section \<open>Sensors with a moving window, alert rules, alert managers and a plant\<close>

text \<open>
  A shallow embedding of \<^verbatim>\<open>sensores.py\<close>. Python's \<^verbatim>\<open>float\<close> readings are
  modelled as \<^typ>\<open>real\<close> (the arithmetic is exact here, where the source rounds), Python's
  unbounded \<^verbatim>\<open>int\<close> as \<^typ>\<open>int\<close>. Methods that assign to a field take the object
  and return the updated one; methods whose body only reads are functions of the object.
  Every call that can raise in Python returns a sum, \<open>Inl\<close> carrying the exception.
\<close>

subsection \<open>Exceptions of the library calls the code makes\<close>

datatype error =
    IndexError         \<comment> \<open>\<^verbatim>\<open>list.pop\<close> on an empty list\<close>
  | StatisticsError    \<comment> \<open>\<^verbatim>\<open>statistics.mean\<close> on an empty list\<close>

fun pop0 :: "'a list \<Rightarrow> error + 'a list" where
  "pop0 [] = Inl IndexError"
| "pop0 (x # xs) = Inr xs"

fun mean :: "real list \<Rightarrow> error + real" where
  "mean [] = Inl StatisticsError"
| "mean (x # xs) = Inr (sum_list (x # xs) / real (length (x # xs)))"

subsection \<open>Sensor\<close>

text \<open>
  The four concrete subclasses of the abstract class \<^verbatim>\<open>Sensor\<close> add one threshold field
  each; the subclass and its field are the \<open>clase\<close> component of the record.
\<close>

datatype clase =
    SensorTemperatura (umbral: real)
  | SensorVibracion (rms_umbral: real)
  | SensorHumedad (humedad_max: real)
  | SensorContaminacionAire (umbral_particulas_por_millon: real)

record Sensor =
  id_sensor :: string
  ventana :: int
  calibracion :: real
  buffer :: "real list"
  clase :: clase

text \<open>The dataclass constructor with the default of \<^verbatim>\<open>_buffer\<close>, a new empty list.\<close>

definition crear :: "string \<Rightarrow> int \<Rightarrow> real \<Rightarrow> clase \<Rightarrow> Sensor" where
  "crear i w c k =
     \<lparr>id_sensor = i, ventana = w, calibracion = c, buffer = [], clase = k\<rparr>"

text \<open>
  \<^verbatim>\<open>leer\<close>: append the calibrated value, then pop index 0 once when the list has grown
  beyond the window.
\<close>

definition leer :: "Sensor \<Rightarrow> real \<Rightarrow> error + Sensor" where
  "leer s valor =
     (let v = valor + calibracion s;
          b = buffer s @ [v]
      in if int (length b) > ventana s
         then (case pop0 b of
                 Inl e \<Rightarrow> Inl e
               | Inr b' \<Rightarrow> Inr (s\<lparr>buffer := b'\<rparr>))
         else Inr (s\<lparr>buffer := b\<rparr>))"

text \<open>A sequence of \<^verbatim>\<open>leer\<close> calls on one sensor, stopping at the first exception.\<close>

fun leer_todas :: "Sensor \<Rightarrow> real list \<Rightarrow> error + Sensor" where
  "leer_todas s [] = Inr s"
| "leer_todas s (v # vs) =
     (case leer s v of Inl e \<Rightarrow> Inl e | Inr s' \<Rightarrow> leer_todas s' vs)"

text \<open>The property \<^verbatim>\<open>promedio\<close>: the mean of the buffer, guarded against the empty list.\<close>

definition promedio :: "Sensor \<Rightarrow> error + real" where
  "promedio s = (if buffer s \<noteq> [] then mean (buffer s) else Inr 0)"

text \<open>\<^verbatim>\<open>en_alerta\<close>, one body per subclass.\<close>

definition en_alerta :: "Sensor \<Rightarrow> error + bool" where
  "en_alerta s =
     (case clase s of
        SensorTemperatura u \<Rightarrow>
          (case promedio s of Inl e \<Rightarrow> Inl e | Inr p \<Rightarrow> Inr (p \<ge> u))
      | SensorVibracion u \<Rightarrow>
          (case promedio s of Inl e \<Rightarrow> Inl e | Inr p \<Rightarrow> Inr (\<bar>p\<bar> \<ge> u))
      | SensorHumedad u \<Rightarrow>
          (case promedio s of Inl e \<Rightarrow> Inl e | Inr p \<Rightarrow> Inr (p \<ge> u))
      | SensorContaminacionAire u \<Rightarrow>
          (case promedio s of Inl e \<Rightarrow> Inl e | Inr p \<Rightarrow> Inr (p \<ge> u)))"

subsection \<open>Notifiers, the event log and what the program prints\<close>

text \<open>
  The two classes that implement the protocol \<^verbatim>\<open>Notificador\<close>, each holding its
  destination.
\<close>

datatype Notificador =
    NotificadorEmail string
  | NotificadorWebhook string

text \<open>
  The four event labels \<^verbatim>\<open>evaluar_y_notificar\<close> passes to the logger, in the source the
  string literals "EVALUACION INICIADA", "ALERTA ACTIVA", "NOTIFICACION ENVIADA" and
  "SIN ALERTA" (the first and the third with an accented O); the specification renders them as
  "EVALUATION STARTED", "ALERT ACTIVE", "NOTIFICATION SENT" and "NO ALERT".
\<close>

datatype evento =
    EVALUACION_INICIADA
  | ALERTA_ACTIVA
  | NOTIFICACION_ENVIADA
  | SIN_ALERTA

text \<open>
  The messages the code builds, by their template and the values substituted into it:
  the fixed text of the start of an evaluation, the alert text with the sensor's id and its
  average (which the source prints with two decimals), the text that a notification was sent
  for a sensor id, and the text that a sensor id is within limits.
\<close>

datatype mensaje =
    Comenzando
  | AlertaEnUmbral string real
  | NotificacionEnviadaPara string
  | DentroDeLimites string

text \<open>
  Everything the program does besides changing sensors is printing. One element of the
  output is one \<^verbatim>\<open>print\<close> call: a log line of \<^verbatim>\<open>registrar_evento\<close> (its timestamp
  left out), a line of a notifier's \<^verbatim>\<open>enviar\<close>, or one of the two lines the plant prints.
\<close>

datatype aviso = IniciaEvaluacion | EvaluacionTerminada

datatype salida =
    Registro evento mensaje
  | Envio Notificador mensaje
  | Impreso aviso

subsection \<open>GestorAlertas\<close>

record GestorAlertas =
  sensores :: "Sensor list"
  notificadores :: "Notificador list"

text \<open>The state a call of \<^verbatim>\<open>evaluar_y_notificar\<close> runs in: its object and the output.\<close>

record Estado =
  gestor :: GestorAlertas
  impreso :: "salida list"

definition registrar_evento :: "evento \<Rightarrow> mensaje \<Rightarrow> Estado \<Rightarrow> Estado" where
  "registrar_evento e m st = st\<lparr>impreso := impreso st @ [Registro e m]\<rparr>"

definition enviar :: "Notificador \<Rightarrow> mensaje \<Rightarrow> Estado \<Rightarrow> Estado" where
  "enviar n m st = st\<lparr>impreso := impreso st @ [Envio n m]\<rparr>"

text \<open>The inner loop over the notifiers: send, then log that the notification was sent.\<close>

fun notificar :: "Notificador list \<Rightarrow> mensaje \<Rightarrow> string \<Rightarrow> Estado \<Rightarrow> Estado" where
  "notificar [] msg i st = st"
| "notificar (n # ns) msg i st =
     notificar ns msg i
       (registrar_evento NOTIFICACION_ENVIADA (NotificacionEnviadaPara i) (enviar n msg st))"

text \<open>
  The outer loop over the sensors. The alert branch reads \<^verbatim>\<open>promedio\<close> a second time
  for the message and the notifier list of the object as it is then.
\<close>

fun evaluar :: "Sensor list \<Rightarrow> Estado \<Rightarrow> error + Estado" where
  "evaluar [] st = Inr st"
| "evaluar (s # ss) st =
     (case en_alerta s of
        Inl e \<Rightarrow> Inl e
      | Inr True \<Rightarrow>
          (case promedio s of
             Inl e \<Rightarrow> Inl e
           | Inr p \<Rightarrow>
               (let msg = AlertaEnUmbral (id_sensor s) p
                in evaluar ss
                     (notificar (notificadores (gestor st)) msg (id_sensor s)
                        (registrar_evento ALERTA_ACTIVA msg st))))
      | Inr False \<Rightarrow>
          evaluar ss (registrar_evento SIN_ALERTA (DentroDeLimites (id_sensor s)) st))"

definition evaluar_y_notificar :: "Estado \<Rightarrow> error + Estado" where
  "evaluar_y_notificar st =
     (let st1 = registrar_evento EVALUACION_INICIADA Comenzando st
      in evaluar (sensores (gestor st1)) st1)"

subsection \<open>PlantaIndustrial\<close>

record PlantaIndustrial =
  gestores :: "GestorAlertas list"

definition agregar_gestor :: "PlantaIndustrial \<Rightarrow> GestorAlertas \<Rightarrow> PlantaIndustrial" where
  "agregar_gestor p g = p\<lparr>gestores := gestores p @ [g]\<rparr>"

text \<open>
  The loop of \<^verbatim>\<open>evaluar_sensores\<close>: each manager runs on the output the previous one left;
  an exception in one ends the loop.
\<close>

fun evaluar_gestores :: "GestorAlertas list \<Rightarrow> salida list \<Rightarrow> error + salida list" where
  "evaluar_gestores [] out = Inr out"
| "evaluar_gestores (g # gs) out =
     (case evaluar_y_notificar \<lparr>gestor = g, impreso = out\<rparr> of
        Inl e \<Rightarrow> Inl e
      | Inr st \<Rightarrow> evaluar_gestores gs (impreso st))"

definition evaluar_sensores :: "PlantaIndustrial \<Rightarrow> salida list \<Rightarrow> error + salida list" where
  "evaluar_sensores p out =
     (case evaluar_gestores (gestores p) (out @ [Impreso IniciaEvaluacion]) of
        Inl e \<Rightarrow> Inl e
      | Inr out' \<Rightarrow> Inr (out' @ [Impreso EvaluacionTerminada]))"

subsection \<open>The behaviour the specification describes\<close>

text \<open>
  The specification's own words, to compare the code with: \<open>average\<close> is the arithmetic
  mean of the buffer, or 0 when the buffer is empty; \<open>is_in_alert\<close> compares it (for a
  vibration sensor its absolute value) with the threshold of the sensor's kind, the boundary
  included; one evaluation cycle logs its start and then, per sensor in registration order,
  either the active alert followed per notifier in registration order by the send and the log
  of the sent notification, or the single log that there is no alert.
\<close>

definition spec_average :: "Sensor \<Rightarrow> real" where
  "spec_average s =
     (if buffer s = [] then 0 else sum_list (buffer s) / real (length (buffer s)))"

definition spec_is_in_alert :: "Sensor \<Rightarrow> bool" where
  "spec_is_in_alert s =
     (case clase s of
        SensorTemperatura u \<Rightarrow> spec_average s \<ge> u
      | SensorVibracion u \<Rightarrow> \<bar>spec_average s\<bar> \<ge> u
      | SensorHumedad u \<Rightarrow> spec_average s \<ge> u
      | SensorContaminacionAire u \<Rightarrow> spec_average s \<ge> u)"

definition spec_alert_message :: "Sensor \<Rightarrow> mensaje" where
  "spec_alert_message s = AlertaEnUmbral (id_sensor s) (spec_average s)"

definition spec_notifier_events :: "Sensor \<Rightarrow> Notificador \<Rightarrow> salida list" where
  "spec_notifier_events s n =
     [Envio n (spec_alert_message s),
      Registro NOTIFICACION_ENVIADA (NotificacionEnviadaPara (id_sensor s))]"

definition spec_sensor_events :: "Notificador list \<Rightarrow> Sensor \<Rightarrow> salida list" where
  "spec_sensor_events ns s =
     (if spec_is_in_alert s
      then Registro ALERTA_ACTIVA (spec_alert_message s) # concat (map (spec_notifier_events s) ns)
      else [Registro SIN_ALERTA (DentroDeLimites (id_sensor s))])"

definition spec_cycle_events :: "GestorAlertas \<Rightarrow> salida list" where
  "spec_cycle_events g =
     Registro EVALUACION_INICIADA Comenzando
       # concat (map (spec_sensor_events (notificadores g)) (sensores g))"

text \<open>The calls of \<^verbatim>\<open>enviar\<close> in an output, in order: the notifier and the message.\<close>

fun envios :: "salida list \<Rightarrow> (Notificador \<times> mensaje) list" where
  "envios [] = []"
| "envios (Envio n m # xs) = (n, m) # envios xs"
| "envios (Registro e m # xs) = envios xs"
| "envios (Impreso a # xs) = envios xs"

subsection \<open>Objects to run the code on\<close>

text \<open>
  The three sensors \<^verbatim>\<open>main\<close> creates (window 5 and calibration 0 by default), and two
  managers over them: one with an alerting and a quiet sensor and both kinds of notifier,
  one with a quiet sensor and one notifier.
\<close>

definition sensor_temp :: Sensor where
  "sensor_temp = crear ''temperatura_01'' 5 0 (SensorTemperatura 80)"

definition sensor_vibr :: Sensor where
  "sensor_vibr = crear ''vibracion_02'' 5 0 (SensorVibracion 2.5)"

definition sensor_hum :: Sensor where
  "sensor_hum = crear ''humedad_04'' 5 0 (SensorHumedad 70)"

definition gestor_mixto :: GestorAlertas where
  "gestor_mixto =
     \<lparr>sensores = [sensor_temp\<lparr>buffer := [75, 85]\<rparr>, sensor_vibr\<lparr>buffer := [1.5, 3]\<rparr>],
      notificadores = [NotificadorEmail ''temp@test.com'',
                       NotificadorWebhook ''http://testVibracion.com'']\<rparr>"

definition gestor_hum :: GestorAlertas where
  "gestor_hum =
     \<lparr>sensores = [sensor_hum\<lparr>buffer := [65]\<rparr>],
      notificadores = [NotificadorEmail ''humedad@test.com'']\<rparr>"


section \<open>The moving window\<close>

lemma leer_Inr:
  "leer s v = Inr (s\<lparr>buffer := drop (if int (length (buffer s)) + 1 > ventana s then 1 else 0) (buffer s @ [v + calibracion s])\<rparr>)"
  by (cases "buffer s") (simp_all add: leer_def Let_def)

lemma leer_todas_buffer:
  "length (buffer s) \<le> nat (ventana s) \<Longrightarrow>
   leer_todas s vs =
     Inr (s\<lparr>buffer := drop (length (buffer s) + length vs - nat (ventana s))
                          (buffer s @ map (\<lambda>v. v + calibracion s) vs)\<rparr>)"
proof (induction vs arbitrary: s)
  case Nil
  then show ?case by simp
next
  case (Cons v vs)
  let ?w = "ventana s" and ?a = "v + calibracion s"
  let ?s1 = "s\<lparr>buffer := drop (if int (length (buffer s)) + 1 > ?w then 1 else 0) (buffer s @ [?a])\<rparr>"
  have inv1: "length (buffer ?s1) \<le> nat (ventana ?s1)"
    using Cons.prems by auto
  have step: "leer_todas s (v # vs) = leer_todas ?s1 vs"
    by (simp add: leer_Inr)
  show ?case
  proof (cases "int (length (buffer s)) + 1 > ?w")
    case True
    with Cons.prems have len: "length (buffer s) = nat ?w" by linarith
    have b1: "buffer ?s1 = tl (buffer s @ [?a])"
      using True by (simp add: drop_Suc del: drop_append tl_append2)
    have l1: "length (buffer ?s1) = nat ?w"
      using b1 len by simp
    have "drop (length (buffer ?s1) + length vs - nat (ventana ?s1)) (buffer ?s1 @ map (\<lambda>v. v + calibracion ?s1) vs)
        = drop (length vs) (tl (buffer s @ [?a]) @ map (\<lambda>v. v + calibracion s) vs)"
      unfolding l1 using b1 by simp
    also have "\<dots> = drop (Suc (length vs)) (buffer s @ ?a # map (\<lambda>v. v + calibracion s) vs)"
      by (cases "buffer s") (simp_all)
    also have "\<dots> = drop (length (buffer s) + length (v # vs) - nat ?w) (buffer s @ map (\<lambda>v. v + calibracion s) (v # vs))"
      using len by simp
    finally have "drop (length (buffer ?s1) + length vs - nat (ventana ?s1)) (buffer ?s1 @ map (\<lambda>v. v + calibracion ?s1) vs)
        = drop (length (buffer s) + length (v # vs) - nat ?w) (buffer s @ map (\<lambda>v. v + calibracion s) (v # vs))" .
    then show ?thesis
      unfolding step Cons.IH [OF inv1] by simp
  next
    case False
    then have "length (buffer s) + length (v # vs) - nat ?w = length (buffer ?s1) + length vs - nat ?w"
      by simp
    then show ?thesis
      unfolding step Cons.IH [OF inv1] using False by simp
  qed
qed

text \<open>
  Claim C1. For every sensor and every raw value, \<open>leer\<close> succeeds, appends exactly the
  value plus the calibration offset, and drops the entry at index 0 once exactly when the
  list has then more than \<open>ventana\<close> entries; nothing else of the sensor changes. Hence,
  from a buffer that holds no more than the window (as every new sensor's empty buffer does,
  and as \<open>leer\<close> keeps it), after more readings than \<open>ventana\<close> the buffer is exactly
  the last \<open>ventana\<close> calibrated values, in the order they were read (none of them when
  the window is not positive).
\<close>

theorem leer_ventana_fifo:
  "leer s v =
     Inr (s\<lparr>buffer := drop (if int (length (buffer s @ [v + calibracion s])) > ventana s then 1 else 0)
                          (buffer s @ [v + calibracion s])\<rparr>)
   \<and> (length (buffer s) \<le> nat (ventana s) \<longrightarrow> int (length vs) > ventana s \<longrightarrow>
        leer_todas s vs =
          Inr (s\<lparr>buffer := map (\<lambda>x. x + calibracion s) (drop (length vs - nat (ventana s)) vs)\<rparr>)
        \<and> length (drop (length vs - nat (ventana s)) vs) = nat (ventana s))"
proof (intro conjI impI)
  show "leer s v =
     Inr (s\<lparr>buffer := drop (if int (length (buffer s @ [v + calibracion s])) > ventana s then 1 else 0)
                          (buffer s @ [v + calibracion s])\<rparr>)"
    by (simp add: leer_Inr)
next
  assume inv: "length (buffer s) \<le> nat (ventana s)" and more: "int (length vs) > ventana s"
  from inv more have le: "length (buffer s) \<le> length (buffer s) + length vs - nat (ventana s)"
    by linarith
  have "drop (length (buffer s) + length vs - nat (ventana s)) (buffer s @ map (\<lambda>x. x + calibracion s) vs)
      = drop (length vs - nat (ventana s)) (map (\<lambda>x. x + calibracion s) vs)"
    using le inv by simp
  then show "leer_todas s vs =
          Inr (s\<lparr>buffer := map (\<lambda>x. x + calibracion s) (drop (length vs - nat (ventana s)) vs)\<rparr>)"
    by (simp add: leer_todas_buffer [OF inv] drop_map)
next
  assume inv: "length (buffer s) \<le> nat (ventana s)" and more: "int (length vs) > ventana s"
  then show "length (drop (length vs - nat (ventana s)) vs) = nat (ventana s)"
    by simp
qed

theorem leer_ventana_fifo_witness:
  "length (buffer (crear ''t1'' 2 1 (SensorTemperatura 80))) \<le> nat (ventana (crear ''t1'' 2 1 (SensorTemperatura 80)))
   \<and> int (length [10, 20, 30::real]) > ventana (crear ''t1'' 2 1 (SensorTemperatura 80))
   \<and> leer (crear ''t1'' 2 1 (SensorTemperatura 80)) 10
       = Inr ((crear ''t1'' 2 1 (SensorTemperatura 80))\<lparr>buffer := [11]\<rparr>)
   \<and> leer_todas (crear ''t1'' 2 1 (SensorTemperatura 80)) [10, 20, 30]
       = Inr ((crear ''t1'' 2 1 (SensorTemperatura 80))\<lparr>buffer := [21, 31]\<rparr>)"
  using leer_ventana_fifo [of "crear ''t1'' 2 1 (SensorTemperatura 80)" 10 "[10, 20, 30]"]
  by (simp add: crear_def leer_def)

text \<open>
  Claim C2. For a sensor with a positive window and an empty buffer, after every call of a
  sequence of \<open>leer\<close> calls (every prefix of the readings) the call has succeeded, the
  window is what it was and the buffer holds at most \<open>ventana\<close> values.
\<close>

theorem buffer_acotado:
  "0 < ventana s \<Longrightarrow> buffer s = [] \<Longrightarrow> k \<le> length vs \<Longrightarrow>
   \<exists>s'. leer_todas s (take k vs) = Inr s' \<and> ventana s' = ventana s
        \<and> int (length (buffer s')) \<le> ventana s"
proof -
  assume pos: "0 < ventana s" and empty: "buffer s = []" and k: "k \<le> length vs"
  from pos empty have inv: "length (buffer s) \<le> nat (ventana s)" by simp
  let ?s' = "s\<lparr>buffer := drop (length (buffer s) + length (take k vs) - nat (ventana s))
                          (buffer s @ map (\<lambda>v. v + calibracion s) (take k vs))\<rparr>"
  have run: "leer_todas s (take k vs) = Inr ?s'"
    by (rule leer_todas_buffer [OF inv])
  have len: "int (length (buffer ?s')) \<le> ventana s"
    using pos empty by simp
  from run len show ?thesis by auto
qed

theorem buffer_acotado_witness:
  "0 < ventana (crear ''h1'' 2 0 (SensorHumedad 70))
   \<and> buffer (crear ''h1'' 2 0 (SensorHumedad 70)) = []
   \<and> (3::nat) \<le> length [1, 2, 3, 4::real]
   \<and> (\<exists>s'. leer_todas (crear ''h1'' 2 0 (SensorHumedad 70)) (take 3 [1, 2, 3, 4]) = Inr s'
          \<and> ventana s' = ventana (crear ''h1'' 2 0 (SensorHumedad 70))
          \<and> int (length (buffer s')) \<le> ventana (crear ''h1'' 2 0 (SensorHumedad 70)))"
proof -
  have a: "0 < ventana (crear ''h1'' 2 0 (SensorHumedad 70))" by (simp add: crear_def)
  have b: "buffer (crear ''h1'' 2 0 (SensorHumedad 70)) = []" by (simp add: crear_def)
  have c: "(3::nat) \<le> length [1, 2, 3, 4::real]" by simp
  from buffer_acotado [OF a b c] a b c show ?thesis by blast
qed

section \<open>The code against the specification's words\<close>

lemma promedio_Inr: "promedio s = Inr (spec_average s)"
  by (cases "buffer s") (simp_all add: promedio_def spec_average_def)

lemma en_alerta_Inr: "en_alerta s = Inr (spec_is_in_alert s)"
  by (cases "clase s") (simp_all add: en_alerta_def spec_is_in_alert_def promedio_Inr)

lemma notificar_impreso:
  "notificar ns msg i st =
     st\<lparr>impreso := impreso st
        @ concat (map (\<lambda>n. [Envio n msg, Registro NOTIFICACION_ENVIADA (NotificacionEnviadaPara i)]) ns)\<rparr>"
  by (induction ns arbitrary: st) (simp_all add: registrar_evento_def enviar_def)

lemma evaluar_paso:
  "evaluar (s # ss) st =
     evaluar ss (st\<lparr>impreso := impreso st @ spec_sensor_events (notificadores (gestor st)) s\<rparr>)"
proof (cases "spec_is_in_alert s")
  case True
  then show ?thesis
    by (simp add: en_alerta_Inr promedio_Inr Let_def notificar_impreso registrar_evento_def
          spec_sensor_events_def spec_alert_message_def spec_notifier_events_def [abs_def])
next
  case False
  then show ?thesis
    by (simp add: en_alerta_Inr registrar_evento_def spec_sensor_events_def)
qed

lemma evaluar_impreso:
  "evaluar ss st =
     Inr (st\<lparr>impreso := impreso st @ concat (map (spec_sensor_events (notificadores (gestor st))) ss)\<rparr>)"
proof (induction ss arbitrary: st)
  case Nil
  show ?case by simp
next
  case (Cons s ss)
  show ?case
    unfolding evaluar_paso Cons.IH by simp
qed

lemma evaluar_y_notificar_impreso:
  "evaluar_y_notificar st = Inr (st\<lparr>impreso := impreso st @ spec_cycle_events (gestor st)\<rparr>)"
  by (simp add: evaluar_y_notificar_def evaluar_impreso registrar_evento_def spec_cycle_events_def)

lemma evaluar_gestores_impreso:
  "evaluar_gestores gs out = Inr (out @ concat (map spec_cycle_events gs))"
  by (induction gs arbitrary: out) (simp_all add: evaluar_y_notificar_impreso)

lemmas ejemplo_defs =
  sensor_temp_def sensor_vibr_def sensor_hum_def gestor_mixto_def gestor_hum_def crear_def

section \<open>Average and alert rules\<close>

text \<open>
  Claim C3. \<open>promedio\<close> never raises: it returns the sum of the buffer divided by its
  length when the buffer is not empty, and exactly 0 when it is empty. It is a function of
  the sensor that returns a number only: the body of the property assigns to nothing.
\<close>

theorem promedio_media:
  "promedio s =
     Inr (if buffer s = [] then 0 else sum_list (buffer s) / real (length (buffer s)))"
  by (simp add: promedio_Inr spec_average_def)

theorem promedio_media_witness:
  "promedio sensor_hum = Inr 0 \<and> promedio (sensor_hum\<lparr>buffer := [65, 75]\<rparr>) = Inr 70"
  using promedio_media [of sensor_hum] promedio_media [of "sensor_hum\<lparr>buffer := [65, 75]\<rparr>"]
  by (simp add: ejemplo_defs)

text \<open>
  Claim C4. For a temperature, humidity or air contamination sensor with threshold \<open>u\<close>,
  \<open>en_alerta\<close> returns whether the average is at least \<open>u\<close>, the boundary included. A
  new humidity sensor with maximum 70, calibration 0 and a window of at least 2 is not in
  alert after the reading 65, and after the reading 75 its average is 70 and it is in alert.
\<close>

theorem en_alerta_umbral:
  "(clase s = SensorTemperatura u \<or> clase s = SensorHumedad u \<or> clase s = SensorContaminacionAire u
      \<longrightarrow> promedio s = Inr (spec_average s) \<and> en_alerta s = Inr (spec_average s \<ge> u))
   \<and> (2 \<le> w \<longrightarrow>
        (\<exists>s1 s2. leer (crear i w 0 (SensorHumedad 70)) 65 = Inr s1
            \<and> promedio s1 = Inr 65 \<and> en_alerta s1 = Inr False
            \<and> leer s1 75 = Inr s2
            \<and> promedio s2 = Inr 70 \<and> en_alerta s2 = Inr True))"
proof (intro conjI impI)
  assume "clase s = SensorTemperatura u \<or> clase s = SensorHumedad u \<or> clase s = SensorContaminacionAire u"
  then show "en_alerta s = Inr (spec_average s \<ge> u)"
    by (auto simp add: en_alerta_def promedio_Inr)
next
  show "promedio s = Inr (spec_average s)" by (rule promedio_Inr)
next
  assume w: "2 \<le> w"
  let ?s0 = "crear i w 0 (SensorHumedad 70)"
  let ?s1 = "?s0\<lparr>buffer := [65]\<rparr>"
  let ?s2 = "?s0\<lparr>buffer := [65, 75]\<rparr>"
  have 1: "leer ?s0 65 = Inr ?s1" using w by (simp add: leer_Inr crear_def)
  have 2: "leer ?s1 75 = Inr ?s2" using w by (simp add: leer_Inr crear_def)
  have 3: "promedio ?s1 = Inr 65" by (simp add: promedio_def)
  have 4: "promedio ?s2 = Inr 70" by (simp add: promedio_def)
  have 5: "en_alerta ?s1 = Inr False" by (simp add: en_alerta_def promedio_def crear_def)
  have 6: "en_alerta ?s2 = Inr True" by (simp add: en_alerta_def promedio_def crear_def)
  from 1 2 3 4 5 6
  show "\<exists>s1 s2. leer (crear i w 0 (SensorHumedad 70)) 65 = Inr s1
            \<and> promedio s1 = Inr 65 \<and> en_alerta s1 = Inr False
            \<and> leer s1 75 = Inr s2
            \<and> promedio s2 = Inr 70 \<and> en_alerta s2 = Inr True"
    by blast
qed

theorem en_alerta_umbral_witness:
  "clase ((crear ''temperatura_01'' 5 0 (SensorTemperatura 80))\<lparr>buffer := [75, 85]\<rparr>) = SensorTemperatura 80
   \<and> promedio ((crear ''temperatura_01'' 5 0 (SensorTemperatura 80))\<lparr>buffer := [75, 85]\<rparr>) = Inr 80
   \<and> en_alerta ((crear ''temperatura_01'' 5 0 (SensorTemperatura 80))\<lparr>buffer := [75, 85]\<rparr>) = Inr True
   \<and> (2::int) \<le> 2
   \<and> (\<exists>s1 s2. leer (crear ''humedad_04'' 2 0 (SensorHumedad 70)) 65 = Inr s1
            \<and> promedio s1 = Inr 65 \<and> en_alerta s1 = Inr False
            \<and> leer s1 75 = Inr s2
            \<and> promedio s2 = Inr 70 \<and> en_alerta s2 = Inr True)"
  using en_alerta_umbral [of "(crear ''temperatura_01'' 5 0 (SensorTemperatura 80))\<lparr>buffer := [75, 85]\<rparr>" 80 2 "''humedad_04''"]
  by (simp add: crear_def spec_average_def)

text \<open>
  Claim C5, amended. For a vibration sensor with threshold \<open>u\<close>, \<open>en_alerta\<close> returns
  whether the absolute value of the average is at least \<open>u\<close>. A new vibration sensor with
  threshold 2.5, calibration 0 and a window of at least 2 has average 1.5 and no alert after
  the reading 1.5, and average 2.25 and still no alert after the reading 3.0.
\<close>

theorem en_alerta_vibracion:
  "(clase s = SensorVibracion u
      \<longrightarrow> promedio s = Inr (spec_average s) \<and> en_alerta s = Inr (\<bar>spec_average s\<bar> \<ge> u))
   \<and> (2 \<le> w \<longrightarrow>
        (\<exists>s1 s2. leer (crear i w 0 (SensorVibracion 2.5)) 1.5 = Inr s1
            \<and> promedio s1 = Inr 1.5 \<and> en_alerta s1 = Inr False
            \<and> leer s1 3 = Inr s2
            \<and> promedio s2 = Inr 2.25 \<and> en_alerta s2 = Inr False))"
proof (intro conjI impI)
  assume "clase s = SensorVibracion u"
  then show "en_alerta s = Inr (\<bar>spec_average s\<bar> \<ge> u)"
    by (simp add: en_alerta_def promedio_Inr)
next
  show "promedio s = Inr (spec_average s)" by (rule promedio_Inr)
next
  assume w: "2 \<le> w"
  let ?s0 = "crear i w 0 (SensorVibracion 2.5)"
  let ?s1 = "?s0\<lparr>buffer := [1.5]\<rparr>"
  let ?s2 = "?s0\<lparr>buffer := [1.5, 3]\<rparr>"
  have 1: "leer ?s0 1.5 = Inr ?s1" using w by (simp add: leer_Inr crear_def)
  have 2: "leer ?s1 3 = Inr ?s2" using w by (simp add: leer_Inr crear_def)
  have 3: "promedio ?s1 = Inr 1.5" by (simp add: promedio_def)
  have 4: "promedio ?s2 = Inr 2.25" by (simp add: promedio_def)
  have 5: "en_alerta ?s1 = Inr False" by (simp add: en_alerta_def promedio_def crear_def)
  have 6: "en_alerta ?s2 = Inr False" by (simp add: en_alerta_def promedio_def crear_def)
  from 1 2 3 4 5 6
  show "\<exists>s1 s2. leer (crear i w 0 (SensorVibracion 2.5)) 1.5 = Inr s1
            \<and> promedio s1 = Inr 1.5 \<and> en_alerta s1 = Inr False
            \<and> leer s1 3 = Inr s2
            \<and> promedio s2 = Inr 2.25 \<and> en_alerta s2 = Inr False"
    by blast
qed

theorem en_alerta_vibracion_witness:
  "clase ((crear ''vibracion_02'' 5 0 (SensorVibracion 2.5))\<lparr>buffer := [-4, -2]\<rparr>) = SensorVibracion 2.5
   \<and> promedio ((crear ''vibracion_02'' 5 0 (SensorVibracion 2.5))\<lparr>buffer := [-4, -2]\<rparr>) = Inr (-3)
   \<and> en_alerta ((crear ''vibracion_02'' 5 0 (SensorVibracion 2.5))\<lparr>buffer := [-4, -2]\<rparr>) = Inr True
   \<and> (2::int) \<le> 5
   \<and> (\<exists>s1 s2. leer (crear ''vibracion_02'' 5 0 (SensorVibracion 2.5)) 1.5 = Inr s1
            \<and> promedio s1 = Inr 1.5 \<and> en_alerta s1 = Inr False
            \<and> leer s1 3 = Inr s2
            \<and> promedio s2 = Inr 2.25 \<and> en_alerta s2 = Inr False)"
  using en_alerta_vibracion [of "(crear ''vibracion_02'' 5 0 (SensorVibracion 2.5))\<lparr>buffer := [-4, -2]\<rparr>" "2.5" 5 "''vibracion_02''"]
  by (simp add: crear_def spec_average_def)

text \<open>
  Claim C5 as it is stated puts no condition on the window. With a window of 1 the second
  reading evicts the first: the average is 3, not 2.25, and the sensor is in alert.
\<close>

theorem en_alerta_vibracion_counterexample:
  "leer_todas (crear ''vibracion_02'' 1 0 (SensorVibracion 2.5)) [1.5, 3]
     = Inr ((crear ''vibracion_02'' 1 0 (SensorVibracion 2.5))\<lparr>buffer := [3]\<rparr>)
   \<and> promedio ((crear ''vibracion_02'' 1 0 (SensorVibracion 2.5))\<lparr>buffer := [3]\<rparr>) = Inr 3
   \<and> promedio ((crear ''vibracion_02'' 1 0 (SensorVibracion 2.5))\<lparr>buffer := [3]\<rparr>) \<noteq> Inr 2.25
   \<and> en_alerta ((crear ''vibracion_02'' 1 0 (SensorVibracion 2.5))\<lparr>buffer := [3]\<rparr>) = Inr True"
  by (simp add: crear_def leer_def promedio_def en_alerta_def)

text \<open>
  Claim C8. \<open>en_alerta\<close> returns a truth value for every sensor of every kind, whatever its
  buffer and window. A new sensor has average 0, so with a threshold \<open>u \<le> 0\<close> a new
  sensor of each of the four kinds is in alert before any reading.
\<close>

theorem en_alerta_total:
  "(\<exists>b. en_alerta s = Inr b)
   \<and> (u \<le> 0 \<longrightarrow>
        promedio (crear i w c k) = Inr 0
        \<and> en_alerta (crear i w c (SensorTemperatura u)) = Inr True
        \<and> en_alerta (crear i w c (SensorVibracion u)) = Inr True
        \<and> en_alerta (crear i w c (SensorHumedad u)) = Inr True
        \<and> en_alerta (crear i w c (SensorContaminacionAire u)) = Inr True)"
proof (intro conjI impI)
  show "\<exists>b. en_alerta s = Inr b"
    by (simp add: en_alerta_Inr)
next
  show "promedio (crear i w c k) = Inr 0"
    by (simp add: promedio_def crear_def)
next
  assume "u \<le> 0"
  then show "en_alerta (crear i w c (SensorTemperatura u)) = Inr True"
    and "en_alerta (crear i w c (SensorVibracion u)) = Inr True"
    and "en_alerta (crear i w c (SensorHumedad u)) = Inr True"
    and "en_alerta (crear i w c (SensorContaminacionAire u)) = Inr True"
    by (simp_all add: en_alerta_def promedio_def crear_def)
qed

theorem en_alerta_total_witness:
  "(-1::real) \<le> 0
   \<and> promedio (crear ''s'' 5 0 (SensorVibracion (-1))) = Inr 0
   \<and> en_alerta (crear ''s'' 5 0 (SensorTemperatura (-1))) = Inr True
   \<and> en_alerta (crear ''s'' 5 0 (SensorVibracion (-1))) = Inr True
   \<and> en_alerta (crear ''s'' 5 0 (SensorHumedad (-1))) = Inr True
   \<and> en_alerta (crear ''s'' 5 0 (SensorContaminacionAire (-1))) = Inr True"
  using en_alerta_total [of "crear ''s'' 5 0 (SensorVibracion (-1))" "-1" "''s''" 5 0 "SensorVibracion (-1)"]
  by simp

section \<open>The evaluation cycle\<close>

lemma envios_append: "envios (xs @ ys) = envios xs @ envios ys"
  by (induction xs rule: envios.induct) simp_all

lemma envios_notifier_events:
  "envios (concat (map (spec_notifier_events s) ns)) = map (\<lambda>n. (n, spec_alert_message s)) ns"
  by (induction ns) (simp_all add: spec_notifier_events_def)

lemma envios_sensor_events:
  "envios (spec_sensor_events ns s) =
     (if spec_is_in_alert s then map (\<lambda>n. (n, spec_alert_message s)) ns else [])"
  by (simp add: spec_sensor_events_def envios_notifier_events)

lemma envios_concat_sensor_events:
  "envios (concat (map (spec_sensor_events ns) ss)) =
     concat (map (\<lambda>s. map (\<lambda>n. (n, spec_alert_message s)) ns) (filter spec_is_in_alert ss))"
  by (induction ss) (simp_all add: envios_append envios_sensor_events)

lemma envios_cycle_events:
  "envios (spec_cycle_events g) =
     concat (map (\<lambda>s. map (\<lambda>n. (n, spec_alert_message s)) (notificadores g))
              (filter spec_is_in_alert (sensores g)))"
  by (simp add: spec_cycle_events_def envios_concat_sensor_events)

lemma en_alerta_True_iff: "(en_alerta s = Inr True) = spec_is_in_alert s"
  by (simp add: en_alerta_Inr)

lemma count_envios_one:
  "length (filter (\<lambda>e. fst e = n) (map (\<lambda>n. (n, m)) ns)) = count_list ns n"
  by (induction ns) simp_all

lemma count_envios_all:
  "length (filter (\<lambda>e. fst e = n) (concat (map (\<lambda>s. map (\<lambda>n. (n, f s)) ns) ss)))
     = count_list ns n * length ss"
  by (induction ss) (simp_all add: count_envios_one [simplified filter_map length_map])

text \<open>
  Claim C6. One call of \<open>evaluar_y_notificar\<close> succeeds and appends to the output; the
  \<open>enviar\<close> calls in what it appends are, for each sensor in alert in registration order,
  one call per registered notifier in registration order, each with the alert message of that
  sensor, and nothing for a sensor that is not in alert. So a notifier receives, for each of
  its registrations, exactly as many calls as there are sensors in alert.
\<close>

theorem evaluar_y_notificar_envios:
  "\<exists>t. evaluar_y_notificar st = Inr (st\<lparr>impreso := impreso st @ t\<rparr>)
     \<and> envios t =
         concat (map (\<lambda>s. map (\<lambda>n. (n, AlertaEnUmbral (id_sensor s) (spec_average s)))
                              (notificadores (gestor st)))
                  (filter (\<lambda>s. en_alerta s = Inr True) (sensores (gestor st))))
     \<and> length (filter (\<lambda>e. fst e = n) (envios t))
         = count_list (notificadores (gestor st)) n
             * length (filter (\<lambda>s. en_alerta s = Inr True) (sensores (gestor st)))"
proof (intro exI conjI)
  show "evaluar_y_notificar st = Inr (st\<lparr>impreso := impreso st @ spec_cycle_events (gestor st)\<rparr>)"
    by (rule evaluar_y_notificar_impreso)
  show e: "envios (spec_cycle_events (gestor st)) =
         concat (map (\<lambda>s. map (\<lambda>n. (n, AlertaEnUmbral (id_sensor s) (spec_average s)))
                              (notificadores (gestor st)))
                  (filter (\<lambda>s. en_alerta s = Inr True) (sensores (gestor st))))"
    by (simp add: envios_cycle_events en_alerta_True_iff spec_alert_message_def)
  show "length (filter (\<lambda>e. fst e = n) (envios (spec_cycle_events (gestor st))))
         = count_list (notificadores (gestor st)) n
             * length (filter (\<lambda>s. en_alerta s = Inr True) (sensores (gestor st)))"
    unfolding e by (rule count_envios_all)
qed

theorem evaluar_y_notificar_envios_witness:
  "\<exists>t. evaluar_y_notificar \<lparr>gestor = gestor_mixto, impreso = []\<rparr>
         = Inr \<lparr>gestor = gestor_mixto, impreso = t\<rparr>
     \<and> envios t =
         [(NotificadorEmail ''temp@test.com'', AlertaEnUmbral ''temperatura_01'' 80),
          (NotificadorWebhook ''http://testVibracion.com'', AlertaEnUmbral ''temperatura_01'' 80)]
     \<and> length (filter (\<lambda>e. fst e = NotificadorEmail ''temp@test.com'') (envios t)) = 1"
  using evaluar_y_notificar_envios
          [of "\<lparr>gestor = gestor_mixto, impreso = []\<rparr>" "NotificadorEmail ''temp@test.com''"]
  by (simp add: ejemplo_defs en_alerta_def promedio_def spec_average_def)

text \<open>
  Claim C7. What one call of \<open>evaluar_y_notificar\<close> appends to the output is exactly the
  sequence the specification describes: the log of the start; then per sensor in registration
  order either the log of the active alert followed, per notifier in registration order, by
  the send and then the log of the sent notification, or the single log that there is no
  alert. The events of a sensor end before those of the next sensor begin.
\<close>

theorem evaluar_y_notificar_orden:
  "evaluar_y_notificar st = Inr (st\<lparr>impreso := impreso st @ spec_cycle_events (gestor st)\<rparr>)"
  by (rule evaluar_y_notificar_impreso)

theorem evaluar_y_notificar_orden_witness:
  "evaluar_y_notificar \<lparr>gestor = gestor_mixto, impreso = []\<rparr> =
     Inr \<lparr>gestor = gestor_mixto,
          impreso =
            [Registro EVALUACION_INICIADA Comenzando,
             Registro ALERTA_ACTIVA (AlertaEnUmbral ''temperatura_01'' 80),
             Envio (NotificadorEmail ''temp@test.com'') (AlertaEnUmbral ''temperatura_01'' 80),
             Registro NOTIFICACION_ENVIADA (NotificacionEnviadaPara ''temperatura_01''),
             Envio (NotificadorWebhook ''http://testVibracion.com'')
               (AlertaEnUmbral ''temperatura_01'' 80),
             Registro NOTIFICACION_ENVIADA (NotificacionEnviadaPara ''temperatura_01''),
             Registro SIN_ALERTA (DentroDeLimites ''vibracion_02'')]\<rparr>"
  using evaluar_y_notificar_orden [of "\<lparr>gestor = gestor_mixto, impreso = []\<rparr>"]
  by (simp add: ejemplo_defs spec_cycle_events_def spec_sensor_events_def spec_is_in_alert_def
        spec_average_def spec_alert_message_def spec_notifier_events_def)

text \<open>
  Claim C10. A call of \<open>evaluar_y_notificar\<close> succeeds and leaves the manager as it was:
  the same sensors with the same fields and buffers and the same notifiers; the output it
  found is a prefix of the output it leaves.
\<close>

theorem evaluar_y_notificar_marco:
  "\<exists>st'. evaluar_y_notificar st = Inr st'
      \<and> gestor st' = gestor st
      \<and> sensores (gestor st') = sensores (gestor st)
      \<and> notificadores (gestor st') = notificadores (gestor st)
      \<and> take (length (impreso st)) (impreso st') = impreso st"
  by (simp add: evaluar_y_notificar_impreso)

section \<open>The plant\<close>

text \<open>
  Claim C9. \<open>evaluar_sensores\<close> prints its first line, then what one call of
  \<open>evaluar_y_notificar\<close> prints for each registered manager, once each and in registration
  order, then its last line. \<open>agregar_gestor\<close> puts the manager at the end of the list,
  whatever the list holds, and keeps the managers before it and their order.
\<close>

theorem evaluar_sensores_orden:
  "evaluar_sensores p out =
     Inr (out @ [Impreso IniciaEvaluacion] @ concat (map spec_cycle_events (gestores p))
            @ [Impreso EvaluacionTerminada])
   \<and> evaluar_y_notificar \<lparr>gestor = g, impreso = out\<rparr>
       = Inr \<lparr>gestor = g, impreso = out @ spec_cycle_events g\<rparr>
   \<and> gestores (agregar_gestor p g) = gestores p @ [g]
   \<and> length (gestores (agregar_gestor p g)) = length (gestores p) + 1
   \<and> take (length (gestores p)) (gestores (agregar_gestor p g)) = gestores p
   \<and> last (gestores (agregar_gestor p g)) = g"
  by (simp add: evaluar_sensores_def evaluar_gestores_impreso evaluar_y_notificar_impreso
        agregar_gestor_def)

theorem evaluar_sensores_orden_witness:
  "evaluar_sensores (agregar_gestor \<lparr>gestores = [gestor_hum]\<rparr> gestor_mixto) [] =
     Inr [Impreso IniciaEvaluacion,
          Registro EVALUACION_INICIADA Comenzando,
          Registro SIN_ALERTA (DentroDeLimites ''humedad_04''),
          Registro EVALUACION_INICIADA Comenzando,
          Registro ALERTA_ACTIVA (AlertaEnUmbral ''temperatura_01'' 80),
          Envio (NotificadorEmail ''temp@test.com'') (AlertaEnUmbral ''temperatura_01'' 80),
          Registro NOTIFICACION_ENVIADA (NotificacionEnviadaPara ''temperatura_01''),
          Envio (NotificadorWebhook ''http://testVibracion.com'')
            (AlertaEnUmbral ''temperatura_01'' 80),
          Registro NOTIFICACION_ENVIADA (NotificacionEnviadaPara ''temperatura_01''),
          Registro SIN_ALERTA (DentroDeLimites ''vibracion_02''),
          Impreso EvaluacionTerminada]
   \<and> gestores (agregar_gestor \<lparr>gestores = [gestor_hum]\<rparr> gestor_mixto) = [gestor_hum, gestor_mixto]"
  using evaluar_sensores_orden [of "agregar_gestor \<lparr>gestores = [gestor_hum]\<rparr> gestor_mixto" "[]"]
        evaluar_sensores_orden [of "\<lparr>gestores = [gestor_hum]\<rparr>" _ gestor_mixto]
  by (simp add: ejemplo_defs spec_cycle_events_def spec_sensor_events_def spec_is_in_alert_def
        spec_average_def spec_alert_message_def spec_notifier_events_def)

end
